theory Spec2Isabelle
  imports Main "HOL-Library.AList"
begin

section \<open>Go values, the cache record and the clock\<close>

text \<open>
  An \<^verbatim>\<open>interface{}\<close> value is either the nil interface or a value with a dynamic type.
  Strings are kept apart because the remote encoding treats them specially; every other
  non-nil value is \<open>GoVal ty p\<close>: its dynamic type as \<^verbatim>\<open>reflect.TypeOf(v).String()\<close>
  prints it, and a payload.
\<close>

datatype go_value = GoNil | GoString string | GoVal string string

text \<open>\<^verbatim>\<open>reflect.TypeOf(value)\<close> followed by \<^verbatim>\<open>.String()\<close>: \<open>None\<close> is the nil
  \<^verbatim>\<open>reflect.Type\<close>, on which the method call panics.\<close>

fun reflect_TypeOf :: "go_value \<Rightarrow> string option" where
  "reflect_TypeOf GoNil = None"
| "reflect_TypeOf (GoString s) = Some ''string''"
| "reflect_TypeOf (GoVal ty p) = Some ty"

record Cache =
  Key :: string
  Data :: go_value
  Type :: string
  Timestamp :: int
  TTL :: int

text \<open>The errors the operations return, named after the message \<^verbatim>\<open>logger.error\<close> puts in
  them (it always returns an error); \<open>FailedToWrite\<close> is the error of \<^verbatim>\<open>os.WriteFile\<close>.\<close>

datatype error =
  NotFound | FailedToParse | FailedToDelete | FailedToCreateFolder | FailedToWrite
  | FailedToSearchFolder

datatype ('s, 'a) outcome = Panic 's | Done 'a

text \<open>\<^verbatim>\<open>int64\<close> arithmetic wraps around; \<open>int64 x\<close> is the value an \<^verbatim>\<open>int64\<close> holds
  after computing the mathematical integer \<open>x\<close>.\<close>

definition int64 :: "int \<Rightarrow> int" where
  "int64 x = (x + 9223372036854775808) mod 18446744073709551616 - 9223372036854775808"

text \<open>\<^verbatim>\<open>time.Duration(x) * time.Second\<close>, in nanoseconds.\<close>

definition seconds_Duration :: "int \<Rightarrow> int" where
  "seconds_Duration x = int64 (x * 1000000000)"

text \<open>\<open>now\<close> is \<^verbatim>\<open>time.Now().Unix()\<close>, the client's only clock (whole seconds).\<close>

definition isExpired :: "int \<Rightarrow> Cache \<Rightarrow> bool" where
  "isExpired now item =
     (if TTL item \<le> 0 then False else now > int64 (Timestamp item + TTL item))"

section \<open>Libraries and operating system\<close>

text \<open>
  What the client calls but does not define: the MD5 digest printed with \<^verbatim>\<open>%x\<close>,
  \<^verbatim>\<open>encoding/json\<close> (\<open>None\<close> is a returned error), the conversion
  \<^verbatim>\<open>int64(ttl.Seconds())\<close> of a duration in nanoseconds (it goes through
  \<^verbatim>\<open>float64\<close>), and whether \<^verbatim>\<open>os.MkdirAll\<close>, \<^verbatim>\<open>os.WriteFile\<close> and \<^verbatim>\<open>os.Remove\<close> fail
  on a path.
  The general theorems below hold for all of them; the examples fix one environment.
\<close>

record env =
  md5_hex :: "string \<Rightarrow> string"
  json_Marshal :: "go_value \<Rightarrow> string option"
  json_Marshal_Cache :: "Cache \<Rightarrow> string option"
  json_Unmarshal :: "string \<Rightarrow> Cache option"
  Duration_Seconds :: "int \<Rightarrow> int"
  MkdirAll_fails :: "string list \<Rightarrow> bool"
  WriteFile_fails :: "string list \<Rightarrow> bool"
  Remove_fails :: "string list \<Rightarrow> bool"

text \<open>\<^verbatim>\<open>strings.Trim(s, cutset)\<close>: all leading and all trailing characters of the cutset
  are removed.\<close>

definition strings_Trim :: "string \<Rightarrow> string \<Rightarrow> string" where
  "strings_Trim s cutset =
     rev (dropWhile (\<lambda>c. c \<in> set cutset) (rev (dropWhile (\<lambda>c. c \<in> set cutset) s)))"

definition dquote :: char where
  "dquote = CHR 0x22"

definition backslash :: char where
  "backslash = CHR 0x5C"

definition strings_HasSuffix :: "string \<Rightarrow> string \<Rightarrow> bool" where
  "strings_HasSuffix s suffix =
     (length suffix \<le> length s \<and> drop (length s - length suffix) s = suffix)"

section \<open>The disk store\<close>

text \<open>
  Paths are lists of components below the per-database folder \<^verbatim>\<open>{DBPath}/{DB}\<close>, which
  \<^verbatim>\<open>filepath.Join(DBPath, strconv.Itoa(DB))\<close> and \<^verbatim>\<open>DBPath + "/" + fmt.Sprintf("%d", DB)\<close>
  both name. The disk is the regular files below that folder, in the order
  \<^verbatim>\<open>filepath.Walk\<close> visits them, and whether the folder exists. Directories below it are
  not modelled: \<^verbatim>\<open>removeEmptyFolder\<close> touches no regular file. Reading an existing
  file succeeds; a failed write and a failed removal leave the disk as it was.
\<close>

record Path =
  folderPath :: "string list"
  filepath :: "string list"
  filename :: string

record Disk =
  db_dir :: bool
  files :: "(string list \<times> string) list"

text \<open>The digest has 32 characters, so the slices \<^verbatim>\<open>encode[0:2]\<close>, \<^verbatim>\<open>encode[2:4]\<close> and
  \<^verbatim>\<open>encode[4:6]\<close> are in range.\<close>

definition getPath :: "env \<Rightarrow> string \<Rightarrow> Path" where
  "getPath e key =
     (let encode = md5_hex e key;
          layer1 = take 2 encode;
          layer2 = take 2 (drop 2 encode);
          layer3 = take 2 (drop 4 encode);
          fname = encode @ ''.json''
      in \<lparr>folderPath = [layer1, layer2, layer3],
          filepath = [layer1, layer2, layer3, fname],
          filename = fname\<rparr>)"

definition os_ReadFile :: "Disk \<Rightarrow> string list \<Rightarrow> string option" where
  "os_ReadFile d p = map_of (files d) p"

text \<open>\<^verbatim>\<open>os.Remove\<close>, for the callers that discard its error: a removal that fails, and the
  removal of a file that does not exist, leave the disk as it was.\<close>

definition os_Remove :: "env \<Rightarrow> Disk \<Rightarrow> string list \<Rightarrow> Disk" where
  "os_Remove e d p = (if Remove_fails e p then d else d\<lparr>files := AList.delete p (files d)\<rparr>)"

definition writeToFile :: "env \<Rightarrow> Disk \<Rightarrow> string \<Rightarrow> Cache \<Rightarrow> error option \<times> Disk" where
  "writeToFile e d key c =
     (let path = getPath e key in
      if MkdirAll_fails e (folderPath path) then (Some FailedToCreateFolder, d)
      else
        (let d1 = d\<lparr>db_dir := True\<rparr> in
         case json_Marshal_Cache e c of
           None \<Rightarrow> (Some FailedToParse, d1)
         | Some data \<Rightarrow>
             if WriteFile_fails e (filepath path) then (Some FailedToWrite, d1)
             else (None, d1\<lparr>files := AList.update (filepath path) data (files d1)\<rparr>)))"

text \<open>The \<^verbatim>\<open>.json\<close> files \<^verbatim>\<open>filepath.Walk\<close> collects; \<open>None\<close> when the folder cannot be
  walked because it does not exist.\<close>

definition is_json :: "string list \<Rightarrow> bool" where
  "is_json p = (p \<noteq> [] \<and> strings_HasSuffix (last p) ''.json'')"

definition walk_json :: "Disk \<Rightarrow> string list list option" where
  "walk_json d = (if db_dir d then Some (filter is_json (map fst (files d))) else None)"

section \<open>The remote store\<close>

text \<open>
  The remote is a key/value store with an expiration per key (nanoseconds, 0 for none; the
  remote's own expiry of keys is not modelled), a script \<open>down\<close> saying for each coming round
  trip whether it fails (an exhausted script means reachable), and the log of the commands
  sent.
\<close>

datatype redis_cmd =
  GET string | SET string string int | DEL string | EXEC "(string \<times> string \<times> int) list"

datatype redis_error = redis_Nil | Unreachable

record Redis =
  rstore :: "string \<Rightarrow> (string \<times> int) option"
  down :: "bool list"
  rlog :: "redis_cmd list"

definition round_trip :: "Redis \<Rightarrow> redis_cmd \<Rightarrow> bool \<times> Redis" where
  "round_trip r c =
     (case down r of
        [] \<Rightarrow> (True, r\<lparr>rlog := rlog r @ [c]\<rparr>)
      | d # ds \<Rightarrow> (\<not> d, r\<lparr>down := ds, rlog := rlog r @ [c]\<rparr>))"

definition redis_Get :: "Redis \<Rightarrow> string \<Rightarrow> (redis_error + string) \<times> Redis" where
  "redis_Get r k =
     (case round_trip r (GET k) of
        (False, r') \<Rightarrow> (Inl Unreachable, r')
      | (True, r') \<Rightarrow>
          (case rstore r' k of
             None \<Rightarrow> (Inl redis_Nil, r')
           | Some (v, ex) \<Rightarrow> (Inr v, r')))"

definition redis_Set :: "Redis \<Rightarrow> string \<Rightarrow> string \<Rightarrow> int \<Rightarrow> bool \<times> Redis" where
  "redis_Set r k v ex =
     (case round_trip r (SET k v ex) of
        (False, r') \<Rightarrow> (False, r')
      | (True, r') \<Rightarrow> (True, r'\<lparr>rstore := (rstore r')(k \<mapsto> (v, ex))\<rparr>))"

definition redis_Del :: "Redis \<Rightarrow> string \<Rightarrow> bool \<times> Redis" where
  "redis_Del r k =
     (case round_trip r (DEL k) of
        (False, r') \<Rightarrow> (False, r')
      | (True, r') \<Rightarrow> (True, r'\<lparr>rstore := (rstore r')(k := None)\<rparr>))"

text \<open>\<^verbatim>\<open>pipe.Exec\<close>: an empty pipeline is not sent; otherwise one round trip carries all
  queued SETs.\<close>

definition redis_Exec :: "Redis \<Rightarrow> (string \<times> string \<times> int) list \<Rightarrow> Redis" where
  "redis_Exec r cmds =
     (if cmds = [] then r
      else
        (case round_trip r (EXEC cmds) of
           (False, r') \<Rightarrow> r'
         | (True, r') \<Rightarrow>
             r'\<lparr>rstore := fold (\<lambda>(k, v, ex) m. m(k \<mapsto> (v, ex))) cmds (rstore r')\<rparr>))"

section \<open>The client\<close>

text \<open>The options the operations read. \<^verbatim>\<open>New\<close> replaces a non-positive \<open>MaxRetry\<close> by 3 and
  a non-positive \<open>MaxQueue\<close> by 1000; the theorems do not depend on it.\<close>

record Options =
  MaxRetry :: int
  MaxQueue :: int

datatype goroutine = go_syncToRedis string Cache | go_healthCheck

text \<open>
  \<open>cache\<close> is the \<^verbatim>\<open>sync.Map\<close>, as an association list in the order \<^verbatim>\<open>Range\<close> visits
  it; \<open>checker\<close> says that the ticker handle is not nil; \<open>queue\<close> is the content of the
  channel \<^verbatim>\<open>writer.queue\<close>, whose capacity is \<open>MaxQueue\<close>; \<open>pending\<close> is the map
  \<^verbatim>\<open>writer.pending\<close>, in the order the flush visits it; \<open>spawned\<close> collects the goroutines
  started with \<^verbatim>\<open>go\<close>.
\<close>

record RedisFallback =
  config :: Options
  redis :: Redis
  cache :: "(string \<times> Cache) list"
  isHealth :: bool
  isRecovering :: bool
  checker :: bool
  queue :: "(string \<times> Cache) list"
  pending :: "(string \<times> Cache) list"
  disk :: Disk
  spawned :: "goroutine list"

definition removeJSONFile :: "env \<Rightarrow> RedisFallback \<Rightarrow> string \<Rightarrow> RedisFallback" where
  "removeJSONFile e s key = s\<lparr>disk := os_Remove e (disk s) (filepath (getPath e key))\<rparr>"

definition changeToFallbackMode :: "RedisFallback \<Rightarrow> RedisFallback" where
  "changeToFallbackMode s =
     (let s1 = s\<lparr>isHealth := False\<rparr> in
      if checker s1 then s1
      else s1\<lparr>checker := True, spawned := spawned s1 @ [go_healthCheck]\<rparr>)"

definition syncToRedis :: "env \<Rightarrow> RedisFallback \<Rightarrow> string \<Rightarrow> Cache \<Rightarrow> RedisFallback" where
  "syncToRedis e s key c =
     (case json_Marshal e (Data c) of
        None \<Rightarrow> s
      | Some enc \<Rightarrow>
          s\<lparr>redis := snd (redis_Set (redis s) key (strings_Trim enc [dquote])
                            (seconds_Duration (TTL c)))\<rparr>)"

subsection \<open>Set\<close>

definition setToMemory ::
  "env \<Rightarrow> RedisFallback \<Rightarrow> string \<Rightarrow> Cache \<Rightarrow> error option \<times> RedisFallback" where
  "setToMemory e s key item =
     (let s1 = s\<lparr>cache := AList.update key item (cache s)\<rparr> in
      if int (length (queue s1)) < MaxQueue (config s1)
      then (None, s1\<lparr>queue := queue s1 @ [(key, item)]\<rparr>)
      else
        (case writeToFile e (disk s1) key item of
           (res, d) \<Rightarrow> (res, s1\<lparr>disk := d\<rparr>)))"

text \<open>The loop of \<^verbatim>\<open>setToRedis\<close>: \<open>n\<close> attempts are left.\<close>

fun setToRedis_loop :: "Redis \<Rightarrow> string \<Rightarrow> string \<Rightarrow> int \<Rightarrow> nat \<Rightarrow> bool \<times> Redis" where
  "setToRedis_loop r key data ex 0 = (False, r)"
| "setToRedis_loop r key data ex (Suc n) =
     (case redis_Set r key data ex of
        (True, r') \<Rightarrow> (True, r')
      | (False, r') \<Rightarrow> setToRedis_loop r' key data ex n)"

definition setToRedis ::
  "env \<Rightarrow> RedisFallback \<Rightarrow> string \<Rightarrow> Cache \<Rightarrow> error option \<times> RedisFallback" where
  "setToRedis e s key c =
     (case json_Marshal e (Data c) of
        None \<Rightarrow> (Some FailedToParse, s)
      | Some enc \<Rightarrow>
          (case setToRedis_loop (redis s) key (strings_Trim enc [dquote])
                  (seconds_Duration (TTL c)) (nat (MaxRetry (config s))) of
             (True, r') \<Rightarrow> (None, s\<lparr>redis := r', cache := AList.update key c (cache s)\<rparr>)
           | (False, r') \<Rightarrow> setToMemory e (changeToFallbackMode (s\<lparr>redis := r'\<rparr>)) key c))"

text \<open>The \<^verbatim>\<open>TTL\<close> field \<^verbatim>\<open>Set\<close> gives the record: zero unless \<^verbatim>\<open>ttl > 0\<close>, then
  \<^verbatim>\<open>int64(ttl.Seconds())\<close>.\<close>

definition ttl_seconds :: "env \<Rightarrow> int \<Rightarrow> int" where
  "ttl_seconds e ttl = (if ttl > 0 then Duration_Seconds e ttl else 0)"

definition Set ::
  "env \<Rightarrow> RedisFallback \<Rightarrow> int \<Rightarrow> string \<Rightarrow> go_value \<Rightarrow> int \<Rightarrow>
     (RedisFallback, error option \<times> RedisFallback) outcome" where
  "Set e s now key val ttl =
     (case reflect_TypeOf val of
        None \<Rightarrow> Panic s
      | Some ty \<Rightarrow>
          (let item = \<lparr>Key = key, Data = val, Type = ty, Timestamp = now,
                        TTL = ttl_seconds e ttl\<rparr>
           in Done (if isHealth s then setToRedis e s key item else setToMemory e s key item)))"

subsection \<open>Get\<close>

definition loadFromFile ::
  "env \<Rightarrow> RedisFallback \<Rightarrow> int \<Rightarrow> string \<Rightarrow> (error + go_value) \<times> RedisFallback" where
  "loadFromFile e s now key =
     (case os_ReadFile (disk s) (filepath (getPath e key)) of
        None \<Rightarrow> (Inl NotFound, s)
      | Some data \<Rightarrow>
          (case json_Unmarshal e data of
             None \<Rightarrow> (Inl FailedToParse, s)
           | Some item \<Rightarrow>
               if isExpired now item then (Inl NotFound, removeJSONFile e s key)
               else (Inr (Data item), s\<lparr>cache := AList.update key item (cache s)\<rparr>)))"

definition getFromMemory ::
  "env \<Rightarrow> RedisFallback \<Rightarrow> int \<Rightarrow> string \<Rightarrow> (error + go_value) \<times> RedisFallback" where
  "getFromMemory e s now key =
     (case map_of (cache s) key of
        Some item \<Rightarrow>
          if isExpired now item then (Inl NotFound, s\<lparr>cache := AList.delete key (cache s)\<rparr>)
          else (Inr (Data item), s)
      | None \<Rightarrow> loadFromFile e s now key)"

text \<open>The loop of \<^verbatim>\<open>getFromRedis\<close>: \<open>n\<close> attempts are left.\<close>

fun getFromRedis_loop :: "env \<Rightarrow> Redis \<Rightarrow> string \<Rightarrow> nat \<Rightarrow> Cache option \<times> Redis" where
  "getFromRedis_loop e r key 0 = (None, r)"
| "getFromRedis_loop e r key (Suc n) =
     (case redis_Get r key of
        (Inr result, r') \<Rightarrow>
          (case json_Unmarshal e result of
             Some item \<Rightarrow> (Some item, r')
           | None \<Rightarrow> getFromRedis_loop e r' key n)
      | (Inl err, r') \<Rightarrow> getFromRedis_loop e r' key n)"

definition getFromRedis ::
  "env \<Rightarrow> RedisFallback \<Rightarrow> int \<Rightarrow> string \<Rightarrow> (error + go_value) \<times> RedisFallback" where
  "getFromRedis e s now key =
     (case map_of (cache s) key of
        Some item \<Rightarrow>
          if isExpired now item
          then (Inl NotFound, removeJSONFile e (s\<lparr>cache := AList.delete key (cache s)\<rparr>) key)
          else (Inr (Data item), s\<lparr>spawned := spawned s @ [go_syncToRedis key item]\<rparr>)
      | None \<Rightarrow>
          (case getFromRedis_loop e (redis s) key (nat (MaxRetry (config s))) of
             (Some item, r') \<Rightarrow>
               (Inr (Data item), s\<lparr>redis := r', cache := AList.update key item (cache s)\<rparr>)
           | (None, r') \<Rightarrow> getFromMemory e (changeToFallbackMode (s\<lparr>redis := r'\<rparr>)) now key))"

definition Get ::
  "env \<Rightarrow> RedisFallback \<Rightarrow> int \<Rightarrow> string \<Rightarrow> (error + go_value) \<times> RedisFallback" where
  "Get e s now key = (if isHealth s then getFromRedis e s now key else getFromMemory e s now key)"

subsection \<open>Del\<close>

definition Del :: "env \<Rightarrow> RedisFallback \<Rightarrow> string \<Rightarrow> error option \<times> RedisFallback" where
  "Del e s key =
     (let s1 = removeJSONFile e (s\<lparr>cache := AList.delete key (cache s)\<rparr>) key in
      if isHealth s then
        (case redis_Del (redis s1) key of
           (True, r') \<Rightarrow> (None, s1\<lparr>redis := r'\<rparr>)
         | (False, r') \<Rightarrow> (Some FailedToDelete, s1\<lparr>redis := r'\<rparr>))
      else (None, s1))"

subsection \<open>Recovery\<close>

text \<open>One step of the \<^verbatim>\<open>Range\<close> callback of \<^verbatim>\<open>syncMemoryToRedis\<close>, on the pipeline, the
  counter and the remote.\<close>

definition sync_item ::
  "env \<Rightarrow> int \<Rightarrow> string \<times> Cache \<Rightarrow> (string \<times> string \<times> int) list \<times> nat \<times> Redis \<Rightarrow>
     (string \<times> string \<times> int) list \<times> nat \<times> Redis" where
  "sync_item e now kv st =
     (case (kv, st) of
        ((key, item), (pipe, count, r)) \<Rightarrow>
          if \<not> isExpired now item then
            (let pipe1 =
                   (case json_Marshal e (Data item) of
                      None \<Rightarrow> pipe
                    | Some enc \<Rightarrow>
                        (let remainingTTL =
                               seconds_Duration (int64 (Timestamp item + TTL item - now))
                         in if remainingTTL > 0
                            then pipe @ [(key, strings_Trim enc [dquote], remainingTTL)]
                            else pipe));
                 count1 = count + 1
             in if count1 mod 100 = 0 then ([], count1, redis_Exec r pipe1)
                else (pipe1, count1, r))
          else (pipe, count, r))"

definition syncMemoryToRedis :: "env \<Rightarrow> RedisFallback \<Rightarrow> int \<Rightarrow> RedisFallback" where
  "syncMemoryToRedis e s now =
     (if isRecovering s then s
      else
        (case fold (sync_item e now) (cache s) ([], 0, redis s) of
           (pipe, count, r) \<Rightarrow>
             s\<lparr>redis := (if count mod 100 \<noteq> 0 then redis_Exec r pipe else r),
               isRecovering := False\<rparr>))"

text \<open>\<^verbatim>\<open>cleanupLocalFile\<close> removes every \<^verbatim>\<open>.json\<close> file; a file whose removal fails is
  logged and stays.\<close>

definition cleanupLocalFile :: "env \<Rightarrow> RedisFallback \<Rightarrow> RedisFallback" where
  "cleanupLocalFile e s =
     s\<lparr>disk := (disk s)\<lparr>files :=
          filter (\<lambda>(p, data). \<not> is_json p \<or> Remove_fails e p) (files (disk s))\<rparr>\<rparr>"

text \<open>The loop of \<^verbatim>\<open>changeToNormalMode\<close> over the collected files.\<close>

definition ingest :: "env \<Rightarrow> Disk \<Rightarrow> string list \<Rightarrow> (string \<times> Cache) list \<Rightarrow> (string \<times> Cache) list" where
  "ingest e d file m =
     (case os_ReadFile d file of
        None \<Rightarrow> m
      | Some data \<Rightarrow>
          (case json_Unmarshal e data of
             None \<Rightarrow> m
           | Some c \<Rightarrow> AList.update (Key c) c m))"

definition changeToNormalMode ::
  "env \<Rightarrow> RedisFallback \<Rightarrow> int \<Rightarrow> error option \<times> RedisFallback" where
  "changeToNormalMode e s now =
     (case walk_json (disk s) of
        None \<Rightarrow> (Some FailedToSearchFolder, s)
      | Some fs \<Rightarrow>
          (let s1 = s\<lparr>cache := fold (ingest e (disk s)) fs (cache s)\<rparr>;
               s2 = syncMemoryToRedis e s1 now;
               s3 = cleanupLocalFile e s2
           in (None, s3\<lparr>isHealth := True\<rparr>)))"


definition state_after :: "('s, 'r \<times> 's) outcome \<Rightarrow> 's" where
  "state_after out = (case out of Panic s \<Rightarrow> s | Done (r, s) \<Rightarrow> s)"

subsection \<open>The write-behind worker\<close>




subsection \<open>Sequences of steps\<close>




section \<open>The specification's reading of the remote encoding\<close>

text \<open>The specification says that a single pair of enclosing double quotes is stripped if
  present. This definition follows those words; it is compared with \<open>strings_Trim\<close>, which
  the code calls.\<close>

definition strip_enclosing_pair :: "string \<Rightarrow> string" where
  "strip_enclosing_pair s =
     (if 2 \<le> length s \<and> hd s = dquote \<and> last s = dquote then butlast (tl s) else s)"

section \<open>A concrete environment and concrete clients\<close>

text \<open>
  The examples use the key \<^verbatim>\<open>k\<close>, whose MD5 digest is
  \<^verbatim>\<open>8ce4b16b22b58894aa86c421e8759df3\<close>, with two records for it, and the key \<^verbatim>\<open>j\<close>,
  whose digest is \<^verbatim>\<open>363b122c528f54df4a0446b6bab05515\<close>; the digest function is tabulated
  on these two keys. The encoder of data
  values quotes a string and escapes double quotes and backslashes in it, as
  \<^verbatim>\<open>json.Marshal\<close> does for printable ASCII text without \<^verbatim>\<open><\<close>, \<^verbatim>\<open>>\<close> and \<^verbatim>\<open>&\<close>; the
  payload of any other value is taken to be its JSON text. The record encoder and the
  decoder are tabulated on the two records and their JSON texts; a text outside the table,
  such as the unquoted \<^verbatim>\<open>v\<close>, does not decode. Durations convert by integer division,
  which is what \<^verbatim>\<open>int64(ttl.Seconds())\<close> gives for the durations used here.
\<close>

definition json_escape :: "char \<Rightarrow> string" where
  "json_escape c =
     (if c = dquote then [backslash, dquote]
      else if c = backslash then [backslash, backslash]
      else [c])"

fun example_Marshal :: "go_value \<Rightarrow> string option" where
  "example_Marshal GoNil = Some ''null''"
| "example_Marshal (GoString s) = Some (dquote # concat (map json_escape s) @ [dquote])"
| "example_Marshal (GoVal ty p) = Some p"

definition permanent_record :: Cache where
  "permanent_record =
     \<lparr>Key = ''k'', Data = GoString ''v'', Type = ''string'', Timestamp = 100, TTL = 0\<rparr>"

definition short_record :: Cache where
  "short_record =
     \<lparr>Key = ''k'', Data = GoString ''v'', Type = ''string'', Timestamp = 100, TTL = 5\<rparr>"

definition permanent_json :: string where
  \<open>permanent_json = ''{"key":"k","data":"v","type":"string","timestamp":100}''\<close>

definition short_json :: string where
  \<open>short_json = ''{"key":"k","data":"v","type":"string","timestamp":100,"ttl":5}''\<close>

definition example_Marshal_Cache :: "Cache \<Rightarrow> string option" where
  "example_Marshal_Cache c =
     (if c = permanent_record then Some permanent_json
      else if c = short_record then Some short_json
      else None)"

definition example_Unmarshal :: "string \<Rightarrow> Cache option" where
  "example_Unmarshal txt =
     (if txt = permanent_json then Some permanent_record
      else if txt = short_json then Some short_record
      else None)"

definition example_env :: env where
  "example_env =
     \<lparr>md5_hex =
        (\<lambda>key. if key = ''k'' then ''8ce4b16b22b58894aa86c421e8759df3''
               else if key = ''j'' then ''363b122c528f54df4a0446b6bab05515''
               else []),
      json_Marshal = example_Marshal,
      json_Marshal_Cache = example_Marshal_Cache,
      json_Unmarshal = example_Unmarshal,
      Duration_Seconds = (\<lambda>d. d div 1000000000),
      MkdirAll_fails = (\<lambda>p. False),
      WriteFile_fails = (\<lambda>p. False),
      Remove_fails = (\<lambda>p. False)\<rparr>"


definition k_file :: "string list" where
  "k_file = [''8c'', ''e4'', ''b1'', ''8ce4b16b22b58894aa86c421e8759df3.json'']"

text \<open>A client in healthy mode with default options, nothing in memory, an empty per-database
  folder, and an empty remote that is reachable.\<close>

definition healthy_client :: RedisFallback where
  "healthy_client =
     \<lparr>config = \<lparr>MaxRetry = 3, MaxQueue = 1000\<rparr>,
      redis = \<lparr>rstore = (\<lambda>k. None), down = [], rlog = []\<rparr>,
      cache = [],
      isHealth = True,
      isRecovering = False,
      checker = False,
      queue = [],
      pending = [],
      disk = \<lparr>db_dir = True, files = []\<rparr>,
      spawned = []\<rparr>"

text \<open>The same client in fallback mode, its health-check ticker running.\<close>

definition fallback_client :: RedisFallback where
  "fallback_client = healthy_client\<lparr>isHealth := False, checker := True\<rparr>"

text \<open>A fallback client whose write-behind channel, of capacity one, is full.\<close>

definition full_queue_client :: RedisFallback where
  "full_queue_client =
     fallback_client\<lparr>config := \<lparr>MaxRetry = 3, MaxQueue = 1\<rparr>, queue := [(''k'', short_record)]\<rparr>"

text \<open>In fallback mode, holding in memory and on disk the record \<^verbatim>\<open>Set("k", "v", 5s)\<close>
  made at time 100.\<close>

definition stale_fallback_client :: RedisFallback where
  "stale_fallback_client =
     fallback_client\<lparr>cache := [(''k'', short_record)],
                      disk := \<lparr>db_dir = True, files = [(k_file, short_json)]\<rparr>\<rparr>"

text \<open>In fallback mode, holding in memory and on disk the record \<^verbatim>\<open>Set("k", "v", 0)\<close>
  made at time 100, which never expires.\<close>

definition permanent_fallback_client :: RedisFallback where
  "permanent_fallback_client =
     fallback_client\<lparr>cache := [(''k'', permanent_record)],
                      disk := \<lparr>db_dir = True, files = [(k_file, permanent_json)]\<rparr>\<rparr>"

text \<open>In fallback mode with the \<^verbatim>\<open>isRecovering\<close> flag set, the file of \<^verbatim>\<open>k\<close> on disk and
  nothing in memory.\<close>

definition recovering_client :: RedisFallback where
  "recovering_client =
     fallback_client\<lparr>isRecovering := True,
                      disk := \<lparr>db_dir = True, files = [(k_file, short_json)]\<rparr>\<rparr>"


text \<open>The number of coming round trips that fail before the first one that succeeds.\<close>

definition leading_failures :: "Redis \<Rightarrow> nat" where
  "leading_failures r = length (takeWhile (\<lambda>d. d) (down r))"

text \<open>A healthy client whose remote holds \<^verbatim>\<open>k\<close> and fails the next round trip only.\<close>

definition flaky_client :: RedisFallback where
  "flaky_client =
     healthy_client\<lparr>redis := \<lparr>rstore = (\<lambda>k. if k = ''k'' then Some (''v'', 0) else None),
                               down = [True], rlog = []\<rparr>\<rparr>"

text \<open>A healthy client with nothing in memory or on the remote, and the file of \<^verbatim>\<open>k\<close>
  on disk.\<close>

definition orphan_file_client :: RedisFallback where
  "orphan_file_client =
     healthy_client\<lparr>disk := \<lparr>db_dir = True, files = [(k_file, permanent_json)]\<rparr>\<rparr>"

text \<open>Healthy clients whose remote fails the next two, and the next three, round trips.\<close>

definition two_failures_client :: RedisFallback where
  "two_failures_client =
     healthy_client\<lparr>redis := \<lparr>rstore = (\<lambda>k. None), down = [True, True], rlog = []\<rparr>\<rparr>"

definition three_failures_client :: RedisFallback where
  "three_failures_client =
     healthy_client\<lparr>redis := \<lparr>rstore = (\<lambda>k. None), down = [True, True, True], rlog = []\<rparr>\<rparr>"

section \<open>Basic facts\<close>

lemma k_file_eq: "filepath (getPath example_env ''k'') = k_file"
  by (simp add: getPath_def example_env_def k_file_def Let_def)

lemma changeToFallbackMode_fields:
  "isHealth (changeToFallbackMode s) = False"
  "checker (changeToFallbackMode s) = True"
  "cache (changeToFallbackMode s) = cache s"
  "disk (changeToFallbackMode s) = disk s"
  "queue (changeToFallbackMode s) = queue s"
  "redis (changeToFallbackMode s) = redis s"
  "config (changeToFallbackMode s) = config s"
  "isRecovering (changeToFallbackMode s) = isRecovering s"
  by (simp_all add: changeToFallbackMode_def Let_def)

lemma int64_id:
  "- 9223372036854775808 \<le> x \<Longrightarrow> x < 9223372036854775808 \<Longrightarrow> int64 x = x"
  by (simp add: int64_def)



lemma setToMemory_cache:
  "map_of (cache (snd (setToMemory e s key item))) key = Some item"
  by (simp add: setToMemory_def Let_def update_conv' split: prod.splits)




lemmas client_defs = stale_fallback_client_def permanent_fallback_client_def recovering_client_def
  fallback_client_def healthy_client_def

lemma is_json_k_file: "is_json k_file"
  by (simp add: is_json_def k_file_def strings_HasSuffix_def)

subsection \<open>The remote and the retry loops\<close>

lemma redis_Set_cases:
  "redis_Set r key v ex =
     (case down r of
        [] \<Rightarrow> (True, r\<lparr>rlog := rlog r @ [SET key v ex], rstore := (rstore r)(key \<mapsto> (v, ex))\<rparr>)
      | d # ds \<Rightarrow>
          if d then (False, r\<lparr>down := ds, rlog := rlog r @ [SET key v ex]\<rparr>)
          else (True, r\<lparr>down := ds, rlog := rlog r @ [SET key v ex],
                        rstore := (rstore r)(key \<mapsto> (v, ex))\<rparr>))"
  by (simp add: redis_Set_def round_trip_def split: list.splits)

lemma setToRedis_loop_attempts:
  "fst (setToRedis_loop r key v ex n) = (leading_failures r < n) \<and>
   rlog (snd (setToRedis_loop r key v ex n)) =
     rlog r @ replicate (min n (Suc (leading_failures r))) (SET key v ex)"
proof (induction n arbitrary: r)
  case 0
  show ?case by simp
next
  case (Suc n)
  show ?case
  proof (cases "down r")
    case Nil
    then show ?thesis by (simp add: redis_Set_cases leading_failures_def)
  next
    case (Cons d ds)
    show ?thesis
    proof (cases d)
      case True
      let ?r' = "r\<lparr>down := ds, rlog := rlog r @ [SET key v ex]\<rparr>"
      have step: "setToRedis_loop r key v ex (Suc n) = setToRedis_loop ?r' key v ex n"
        using Cons True by (simp add: redis_Set_cases)
      have lf: "leading_failures r = Suc (leading_failures ?r')"
        using Cons True by (simp add: leading_failures_def)
      show ?thesis
        unfolding step lf using Suc.IH [of ?r'] by (simp add: replicate_append_same)
    next
      case False
      with Cons show ?thesis by (simp add: redis_Set_cases leading_failures_def)
    qed
  qed
qed

lemma redis_Get_missing:
  assumes "rstore r key = None"
  shows "\<exists>err r'. redis_Get r key = (Inl err, r') \<and> rstore r' = rstore r"
proof (cases "down r")
  case Nil
  with assms show ?thesis by (simp add: redis_Get_def round_trip_def)
next
  case (Cons d ds)
  with assms show ?thesis by (cases d) (simp_all add: redis_Get_def round_trip_def)
qed

lemma getFromRedis_loop_missing:
  "rstore r key = None \<Longrightarrow> fst (getFromRedis_loop e r key n) = None"
proof (induction n arbitrary: r)
  case 0
  show ?case by simp
next
  case (Suc n)
  from redis_Get_missing [OF Suc.prems] obtain err r' where
    g: "redis_Get r key = (Inl err, r')" and st: "rstore r' = rstore r" by blast
  from st Suc.prems have "rstore r' key = None" by simp
  then have "fst (getFromRedis_loop e r' key n) = None" by (rule Suc.IH)
  with g show ?case by simp
qed

lemma redis_Del_log: "rlog (snd (redis_Del r key)) = rlog r @ [DEL key]"
proof (cases "down r")
  case Nil
  then show ?thesis by (simp add: redis_Del_def round_trip_def)
next
  case (Cons d ds)
  then show ?thesis by (cases d) (simp_all add: redis_Del_def round_trip_def)
qed

lemma redis_Del_ok: "fst (redis_Del r key) = (leading_failures r = 0)"
proof (cases "down r")
  case Nil
  then show ?thesis by (simp add: redis_Del_def round_trip_def leading_failures_def)
next
  case (Cons d ds)
  then show ?thesis
    by (cases d) (simp_all add: redis_Del_def round_trip_def leading_failures_def)
qed

lemma setToMemory_fields:
  "redis (snd (setToMemory e s key item)) = redis s"
  "isHealth (snd (setToMemory e s key item)) = isHealth s"
  "checker (snd (setToMemory e s key item)) = checker s"
  by (simp_all add: setToMemory_def Let_def split: prod.splits)

lemma setToRedis_loop_store:
  "fst (setToRedis_loop r key v ex n) \<Longrightarrow>
     rstore (snd (setToRedis_loop r key v ex n)) key = Some (v, ex)"
proof (induction n arbitrary: r)
  case 0
  then show ?case by simp
next
  case (Suc n)
  show ?case
  proof (cases "fst (redis_Set r key v ex)")
    case True
    then show ?thesis
      by (cases "down r") (auto simp: redis_Set_cases split: if_splits)
  next
    case False
    then obtain r' where r': "redis_Set r key v ex = (False, r')"
      by (cases "redis_Set r key v ex") simp
    with Suc.prems have "fst (setToRedis_loop r' key v ex n)" by simp
    then have "rstore (snd (setToRedis_loop r' key v ex n)) key = Some (v, ex)"
      by (rule Suc.IH)
    with r' show ?thesis by simp
  qed
qed

lemma setToRedis_unfold:
  assumes "json_Marshal e (Data c) = Some enc"
  shows "setToRedis e s key c =
     (let res = setToRedis_loop (redis s) key (strings_Trim enc [dquote])
                  (seconds_Duration (TTL c)) (nat (MaxRetry (config s)))
      in if fst res then (None, s\<lparr>redis := snd res, cache := AList.update key c (cache s)\<rparr>)
         else setToMemory e (changeToFallbackMode (s\<lparr>redis := snd res\<rparr>)) key c)"
  using assms by (simp add: setToRedis_def Let_def split: prod.splits bool.splits)

lemma setToRedis_log:
  assumes "json_Marshal e (Data c) = Some enc"
  shows "rlog (redis (snd (setToRedis e s key c))) =
           rlog (redis s) @
           replicate (min (nat (MaxRetry (config s))) (Suc (leading_failures (redis s))))
             (SET key (strings_Trim enc [dquote]) (seconds_Duration (TTL c)))"
  using setToRedis_loop_attempts [of "redis s" key "strings_Trim enc [dquote]"
      "seconds_Duration (TTL c)" "nat (MaxRetry (config s))"]
  by (simp add: setToRedis_unfold [OF assms] Let_def setToMemory_fields
      changeToFallbackMode_fields)

lemma syncToRedis_log:
  assumes "json_Marshal e (Data c) = Some enc"
  shows "rlog (redis (syncToRedis e s key c)) =
           rlog (redis s) @ [SET key (strings_Trim enc [dquote]) (seconds_Duration (TTL c))]"
  using assms
  by (cases "down (redis s)") (simp_all add: syncToRedis_def redis_Set_cases)

lemma writeToFile_content:
  assumes "writeToFile e d key c = (None, d')"
  shows "os_ReadFile d' (filepath (getPath e key)) = json_Marshal_Cache e c"
  using assms
  by (auto simp: writeToFile_def Let_def os_ReadFile_def update_conv'
      split: if_splits option.splits)

subsection \<open>Calls about other keys\<close>














subsection \<open>The flush of the pending map\<close>






subsection \<open>Trimming\<close>

lemma strings_Trim_single:
  "strings_Trim s [q] = rev (dropWhile (\<lambda>c. c = q) (rev (dropWhile (\<lambda>c. c = q) s)))"
  by (simp add: strings_Trim_def)

lemma takeWhile_eq_replicate:
  "takeWhile (\<lambda>c. c = q) xs = replicate (length (takeWhile (\<lambda>c. c = q) xs)) q"
  by (induction xs) auto

lemma strings_Trim_decompose:
  "\<exists>n m. s = replicate n q @ strings_Trim s [q] @ replicate m q"
proof -
  let ?P = "\<lambda>c. c = q"
  let ?a = "dropWhile ?P s"
  let ?b = "dropWhile ?P (rev ?a)"
  have 1: "s = takeWhile ?P s @ ?a" by simp
  have "rev ?a = takeWhile ?P (rev ?a) @ ?b" by simp
  then have "rev (rev ?a) = rev (takeWhile ?P (rev ?a) @ ?b)" by (rule arg_cong)
  then have 2: "?a = rev ?b @ rev (takeWhile ?P (rev ?a))"
    by (simp only: rev_rev_ident rev_append)
  have 3: "rev (takeWhile ?P (rev ?a)) = replicate (length (takeWhile ?P (rev ?a))) q"
    by (subst takeWhile_eq_replicate) simp
  have 4: "takeWhile ?P s = replicate (length (takeWhile ?P s)) q"
    by (rule takeWhile_eq_replicate)
  have "s = replicate (length (takeWhile ?P s)) q @ rev ?b @
           replicate (length (takeWhile ?P (rev ?a))) q"
    using 1 2 3 4 by metis
  then show ?thesis unfolding strings_Trim_single by blast
qed

lemma strings_Trim_ends:
  assumes "strings_Trim s [q] \<noteq> []"
  shows "hd (strings_Trim s [q]) \<noteq> q \<and> last (strings_Trim s [q]) \<noteq> q"
proof -
  let ?P = "\<lambda>c. c = q"
  let ?a = "dropWhile ?P s"
  let ?b = "dropWhile ?P (rev ?a)"
  have T: "strings_Trim s [q] = rev ?b" by (rule strings_Trim_single)
  with assms have b: "?b \<noteq> []" by simp
  then have "\<not> ?P (hd ?b)" by (rule hd_dropWhile)
  then have l: "last (rev ?b) \<noteq> q" using b by (metis last_rev)
  from b have "rev ?a \<noteq> []" by (metis dropWhile.simps(1))
  then have a: "?a \<noteq> []" by simp
  then have na: "\<not> ?P (hd ?a)" by (rule hd_dropWhile)
  have "rev ?a = takeWhile ?P (rev ?a) @ ?b" by simp
  then have "rev (rev ?a) = rev (takeWhile ?P (rev ?a) @ ?b)" by (rule arg_cong)
  then have "?a = rev ?b @ rev (takeWhile ?P (rev ?a))"
    by (simp only: rev_rev_ident rev_append)
  then have "hd ?a = hd (rev ?b)" using b by (metis hd_append2 rev_is_Nil_conv)
  with na have "hd (rev ?b) \<noteq> q" by simp
  with l show ?thesis unfolding T by simp
qed

lemma dropWhile_replicate_same:
  "dropWhile (\<lambda>c. c = q) (replicate k q @ xs) = dropWhile (\<lambda>c. c = q) xs"
  by (induction k) simp_all

lemma dropWhile_replicate_all: "dropWhile (\<lambda>c. c = q) (replicate k q) = []"
  by (induction k) simp_all

lemma dropWhile_hd_self: "xs \<noteq> [] \<Longrightarrow> hd xs \<noteq> q \<Longrightarrow> dropWhile (\<lambda>c. c = q) xs = xs"
  by (cases xs) simp_all

lemma strings_Trim_unique:
  assumes "s = replicate n q @ t @ replicate m q"
    and "t = [] \<or> (hd t \<noteq> q \<and> last t \<noteq> q)"
  shows "strings_Trim s [q] = t"
proof (cases "t = []")
  case True
  show ?thesis
    unfolding strings_Trim_single assms(1) True
    by (simp only: append_Nil dropWhile_replicate_same dropWhile_replicate_all rev.simps(1)
        dropWhile.simps(1))
next
  case False
  with assms(2) have h: "hd t \<noteq> q" and l: "last t \<noteq> q" by simp_all
  let ?P = "\<lambda>c. c = q"
  have "dropWhile ?P (replicate n q @ t @ replicate m q) = dropWhile ?P (t @ replicate m q)"
    by (rule dropWhile_replicate_same)
  also have "\<dots> = t @ replicate m q"
  proof (rule dropWhile_hd_self)
    show "t @ replicate m q \<noteq> []" using False by simp
    show "hd (t @ replicate m q) \<noteq> q" using False h by simp
  qed
  finally have a: "dropWhile ?P (replicate n q @ t @ replicate m q) = t @ replicate m q" .
  have r: "rev (t @ replicate m q) = replicate m q @ rev t"
    by (simp only: rev_append rev_replicate)
  have "dropWhile ?P (replicate m q @ rev t) = dropWhile ?P (rev t)"
    by (rule dropWhile_replicate_same)
  also have "\<dots> = rev t"
  proof (rule dropWhile_hd_self)
    show "rev t \<noteq> []" using False by simp
    show "hd (rev t) \<noteq> q" using False l by (simp add: hd_rev)
  qed
  finally have b: "dropWhile ?P (rev (t @ replicate m q)) = rev t" unfolding r .
  show ?thesis
    unfolding strings_Trim_single assms(1) a b by (rule rev_rev_ident)
qed

lemma strings_Trim_strip_enclosing_pair:
  assumes "strip_enclosing_pair s = [] \<or>
           (hd (strip_enclosing_pair s) \<noteq> dquote \<and> last (strip_enclosing_pair s) \<noteq> dquote)"
  shows "strings_Trim s [dquote] = strip_enclosing_pair s"
proof (cases "2 \<le> length s \<and> hd s = dquote \<and> last s = dquote")
  case True
  then have st: "strip_enclosing_pair s = butlast (tl s)"
    unfolding strip_enclosing_pair_def by (rule if_P)
  from True have "2 \<le> length s" by (rule conjunct1)
  then have xs: "tl s \<noteq> []" by (cases s) auto
  from True have ne: "s \<noteq> []" by auto
  have lt: "last (tl s) = last s" using xs by (simp add: last_tl)
  have "hd s # butlast (tl s) @ [last (tl s)] = s" using ne xs by simp
  then have "s = dquote # butlast (tl s) @ [dquote]" using True lt by simp
  then have "s = replicate 1 dquote @ butlast (tl s) @ replicate 1 dquote"
    by (simp only: replicate.simps One_nat_def append_Cons append_Nil)
  then show ?thesis using assms unfolding st by (rule strings_Trim_unique)
next
  case False
  then have st: "strip_enclosing_pair s = s"
    unfolding strip_enclosing_pair_def by (rule if_not_P)
  have "s = replicate 0 dquote @ s @ replicate 0 dquote"
    by (simp only: replicate.simps append_Nil append_Nil2)
  then show ?thesis using assms unfolding st by (rule strings_Trim_unique)
qed

lemma example_enc_v:
  "json_Marshal example_env (Data permanent_record) = Some [dquote, CHR ''v'', dquote]"
  by (simp add: example_env_def permanent_record_def json_escape_def dquote_def backslash_def)

lemma Trim_enc_v: "strings_Trim [dquote, CHR ''v'', dquote] [dquote] = ''v''"
  by (simp add: strings_Trim_def dquote_def)


section \<open>Reading back what was set\<close>




section \<open>Recovery of records that never expire\<close>

text \<open>Every record without expiry is left out of the pipeline: with \<open>TTL = 0\<close> the remaining
  time \<open>Timestamp + TTL - now\<close> is not positive once the clock has reached the record's
  timestamp, and only a positive remaining time queues a SET.\<close>

lemma sync_item_skips_permanent:
  assumes "TTL item = 0" and "Timestamp item \<le> now" and "- 9223372036 \<le> Timestamp item - now"
  shows "fst (sync_item e now (key, item) (pipe, count, r)) =
           (if Suc count mod 100 = 0 then [] else pipe)"
proof -
  have "int64 (Timestamp item - now) = Timestamp item - now"
    using assms(2,3) by (intro int64_id) simp_all
  moreover have "int64 ((Timestamp item - now) * 1000000000) = (Timestamp item - now) * 1000000000"
    using assms(2,3) by (intro int64_id) simp_all
  ultimately have "seconds_Duration (int64 (Timestamp item + TTL item - now)) \<le> 0"
    using assms(1,2) by (simp add: seconds_Duration_def mult_le_0_iff)
  then show ?thesis
    using assms(1) by (simp add: sync_item_def isExpired_def Let_def split: option.splits)
qed

text \<open>
  C2, at a failing input. The client holds \<^verbatim>\<open>Set("k", "v", 0)\<close> from time 100 in memory and
  on disk. Recovery at time 200 finds the record not expired and still sends nothing: the
  remote has no \<^verbatim>\<open>k\<close> afterwards, the file is purged and the client is healthy.
\<close>

theorem recovery_skips_permanent_record:
  "map_of (cache permanent_fallback_client) ''k'' = Some permanent_record \<and>
   \<not> isExpired 200 permanent_record \<and>
   fst (changeToNormalMode example_env permanent_fallback_client 200) = None \<and>
   isHealth (snd (changeToNormalMode example_env permanent_fallback_client 200)) \<and>
   rlog (redis (snd (changeToNormalMode example_env permanent_fallback_client 200))) = [] \<and>
   rstore (redis (snd (changeToNormalMode example_env permanent_fallback_client 200))) ''k'' = None \<and>
   files (disk (snd (changeToNormalMode example_env permanent_fallback_client 200))) = []"
  by (simp add: client_defs changeToNormalMode_def walk_json_def is_json_k_file Let_def
      ingest_def os_ReadFile_def example_env_def example_Unmarshal_def permanent_record_def
      syncMemoryToRedis_def sync_item_def isExpired_def seconds_Duration_def int64_def
      redis_Exec_def cleanupLocalFile_def)

section \<open>The encoding sent to the remote\<close>

text \<open>
  C3, as the code has it. Let \<open>enc\<close> be the JSON encoding of the record's data. The SETs of
  the \<^verbatim>\<open>Set\<close> path (one per attempt) and the SET of the asynchronous refresh carry
  \<^verbatim>\<open>strings.Trim(enc, "\"")\<close>: \<open>enc\<close> without all of its leading and all of its trailing
  double quotes, so that what is sent neither starts nor ends with a double quote. This is
  \<open>enc\<close> with one enclosing pair stripped whenever stripping one pair leaves a text that
  neither starts nor ends with a double quote. A file written by \<^verbatim>\<open>writeToFile\<close> holds the
  JSON encoding of the record as the encoder returned it.
\<close>

theorem remote_SET_trims_quotes:
  assumes "json_Marshal e (Data c) = Some enc"
  shows "rlog (redis (snd (setToRedis e s key c))) =
           rlog (redis s) @
           replicate (min (nat (MaxRetry (config s))) (Suc (leading_failures (redis s))))
             (SET key (strings_Trim enc [dquote]) (seconds_Duration (TTL c))) \<and>
         rlog (redis (syncToRedis e s key c)) =
           rlog (redis s) @ [SET key (strings_Trim enc [dquote]) (seconds_Duration (TTL c))] \<and>
         (\<exists>n m. enc = replicate n dquote @ strings_Trim enc [dquote] @ replicate m dquote) \<and>
         (strings_Trim enc [dquote] = [] \<or>
          (hd (strings_Trim enc [dquote]) \<noteq> dquote \<and>
           last (strings_Trim enc [dquote]) \<noteq> dquote)) \<and>
         ((strip_enclosing_pair enc = [] \<or>
           (hd (strip_enclosing_pair enc) \<noteq> dquote \<and>
            last (strip_enclosing_pair enc) \<noteq> dquote)) \<longrightarrow>
          strings_Trim enc [dquote] = strip_enclosing_pair enc) \<and>
         (\<forall>d d'. writeToFile e d key c = (None, d') \<longrightarrow>
            os_ReadFile d' (filepath (getPath e key)) = json_Marshal_Cache e c)"
  using setToRedis_log [OF assms] syncToRedis_log [OF assms] strings_Trim_decompose
    strings_Trim_ends strings_Trim_strip_enclosing_pair writeToFile_content
  by blast

text \<open>The string \<^verbatim>\<open>v\<close> is encoded as \<^verbatim>\<open>"v"\<close> and sent as \<^verbatim>\<open>v\<close>; its record is
  written to disk as it was encoded.\<close>

theorem remote_SET_trims_quotes_witness:
  "json_Marshal example_env (Data permanent_record) = Some [dquote, CHR ''v'', dquote] \<and>
   rlog (redis (snd (setToRedis example_env healthy_client ''k'' permanent_record))) =
     [SET ''k'' ''v'' 0] \<and>
   rlog (redis (syncToRedis example_env healthy_client ''k'' permanent_record)) =
     [SET ''k'' ''v'' 0] \<and>
   strip_enclosing_pair [dquote, CHR ''v'', dquote] = ''v'' \<and>
   strings_Trim [dquote, CHR ''v'', dquote] [dquote] = ''v'' \<and>
   writeToFile example_env (disk healthy_client) ''k'' permanent_record =
     (None, \<lparr>db_dir = True, files = [(k_file, permanent_json)]\<rparr>) \<and>
   os_ReadFile \<lparr>db_dir = True, files = [(k_file, permanent_json)]\<rparr>
     (filepath (getPath example_env ''k'')) = Some permanent_json"
proof -
  have st: "strip_enclosing_pair [dquote, CHR ''v'', dquote] = ''v''"
    by (simp add: strip_enclosing_pair_def dquote_def)
  have w: "writeToFile example_env (disk healthy_client) ''k'' permanent_record =
      (None, \<lparr>db_dir = True, files = [(k_file, permanent_json)]\<rparr>)"
    by (simp add: writeToFile_def Let_def getPath_def k_file_def healthy_client_def
        example_env_def example_Marshal_Cache_def)
  have lf: "leading_failures (redis healthy_client) = 0"
    "nat (MaxRetry (config healthy_client)) = 3" "rlog (redis healthy_client) = []"
    by (simp_all add: leading_failures_def healthy_client_def)
  have d: "seconds_Duration (TTL permanent_record) = 0"
    by (simp add: seconds_Duration_def permanent_record_def int64_def)
  have mc: "json_Marshal_Cache example_env permanent_record = Some permanent_json"
    by (simp add: example_env_def example_Marshal_Cache_def)
  note T = remote_SET_trims_quotes [OF example_enc_v, of healthy_client "''k''"]
  from T w mc have fl:
    "os_ReadFile \<lparr>db_dir = True, files = [(k_file, permanent_json)]\<rparr>
       (filepath (getPath example_env ''k'')) = Some permanent_json"
    by metis
  from T show ?thesis
    by (simp add: example_enc_v Trim_enc_v st lf d w fl)
qed

text \<open>The claim as stated fails for a string that ends with a double quote: \<^verbatim>\<open>a"\<close> is
  encoded as \<^verbatim>\<open>"a\""\<close>; one leading and two trailing double quotes are removed, so that
  the letter and the backslash are sent, where stripping one enclosing pair would leave the
  letter, the backslash and a double quote.\<close>

theorem remote_SET_trims_two_trailing_quotes:
  "json_Marshal example_env (GoString [CHR ''a'', dquote]) =
     Some [dquote, CHR ''a'', backslash, dquote, dquote] \<and>
   rlog (redis (state_after
     (Set example_env healthy_client 100 ''k'' (GoString [CHR ''a'', dquote]) 0))) =
     [SET ''k'' [CHR ''a'', backslash] 0] \<and>
   strip_enclosing_pair [dquote, CHR ''a'', backslash, dquote, dquote] =
     [CHR ''a'', backslash, dquote] \<and>
   [CHR ''a'', backslash] \<noteq> [CHR ''a'', backslash, dquote]"
  by (simp add: example_env_def json_escape_def Set_def Let_def healthy_client_def
      setToRedis_def ttl_seconds_def state_after_def eval_nat_numeral redis_Set_def
      round_trip_def strings_Trim_def seconds_Duration_def int64_def
      strip_enclosing_pair_def dquote_def backslash_def)

section \<open>Reading an expired record\<close>

text \<open>What \<^verbatim>\<open>Get\<close> does with an expired record it finds in memory: both modes return
  \<^verbatim>\<open>NotFound\<close> and drop the memory entry, and only healthy mode removes the file.\<close>

lemma Get_expired_hit:
  assumes "map_of (cache s) key = Some item" and "isExpired now item"
  shows "fst (Get e s now key) = Inl NotFound \<and>
         map_of (cache (snd (Get e s now key))) key = None \<and>
         disk (snd (Get e s now key)) =
           (if isHealth s then os_Remove e (disk s) (filepath (getPath e key)) else disk s)"
  using assms
  by (simp add: Get_def getFromRedis_def getFromMemory_def removeJSONFile_def delete_conv')

text \<open>
  C4, at a failing input. In fallback mode, with the record \<^verbatim>\<open>Set("k", "v", 5s)\<close> from time
  100 in memory and on disk, \<^verbatim>\<open>Get("k")\<close> at time 106 returns \<^verbatim>\<open>NotFound\<close> and drops the
  memory entry, but the file is still there.
\<close>

theorem Get_fallback_leaves_expired_file:
  "\<not> isHealth stale_fallback_client \<and>
   map_of (cache stale_fallback_client) ''k'' = Some short_record \<and>
   isExpired 106 short_record \<and>
   fst (Get example_env stale_fallback_client 106 ''k'') = Inl NotFound \<and>
   map_of (cache (snd (Get example_env stale_fallback_client 106 ''k''))) ''k'' = None \<and>
   os_ReadFile (disk (snd (Get example_env stale_fallback_client 106 ''k'')))
     (filepath (getPath example_env ''k'')) = Some short_json"
  by (simp add: k_file_eq client_defs Get_def getFromMemory_def isExpired_def short_record_def
      int64_def os_ReadFile_def)

section \<open>Retrying remote writes\<close>

text \<open>
  C5, as the code has it. The remote SET of the \<^verbatim>\<open>Set\<close> path is attempted until it succeeds,
  at most \<open>MaxRetry\<close> times. When one of these attempts succeeds the record is on the remote
  and in memory and the mode is unchanged. When all \<open>MaxRetry\<close> attempts fail the client
  switches to fallback mode, its ticker running, and the record is stored by
  \<^verbatim>\<open>setToMemory\<close>. The asynchronous refresh sends its SET once. \<^verbatim>\<open>Del\<close> in healthy mode
  deletes the memory entry, calls \<^verbatim>\<open>os.Remove\<close> on the file, and sends the remote DEL exactly
  once: it returns the failure when that one round trip fails and no error otherwise, and
  whatever the answer it stays in healthy mode, starts no ticker, queues nothing and writes
  nothing to disk.
\<close>

theorem remote_retry_policy:
  assumes "json_Marshal e (Data c) = Some enc"
  shows "rlog (redis (snd (setToRedis e s key c))) =
           rlog (redis s) @
           replicate (min (nat (MaxRetry (config s))) (Suc (leading_failures (redis s))))
             (SET key (strings_Trim enc [dquote]) (seconds_Duration (TTL c))) \<and>
         (leading_failures (redis s) < nat (MaxRetry (config s)) \<longrightarrow>
            fst (setToRedis e s key c) = None \<and>
            isHealth (snd (setToRedis e s key c)) = isHealth s \<and>
            map_of (cache (snd (setToRedis e s key c))) key = Some c \<and>
            rstore (redis (snd (setToRedis e s key c))) key =
              Some (strings_Trim enc [dquote], seconds_Duration (TTL c))) \<and>
         (nat (MaxRetry (config s)) \<le> leading_failures (redis s) \<longrightarrow>
            \<not> isHealth (snd (setToRedis e s key c)) \<and>
            checker (snd (setToRedis e s key c)) \<and>
            map_of (cache (snd (setToRedis e s key c))) key = Some c \<and>
            (\<exists>r'. setToRedis e s key c =
                    setToMemory e (changeToFallbackMode (s\<lparr>redis := r'\<rparr>)) key c)) \<and>
         rlog (redis (syncToRedis e s key c)) =
           rlog (redis s) @ [SET key (strings_Trim enc [dquote]) (seconds_Duration (TTL c))] \<and>
         (isHealth s \<longrightarrow>
            rlog (redis (snd (Del e s key))) = rlog (redis s) @ [DEL key] \<and>
            isHealth (snd (Del e s key)) \<and>
            checker (snd (Del e s key)) = checker s \<and>
            spawned (snd (Del e s key)) = spawned s \<and>
            queue (snd (Del e s key)) = queue s \<and>
            fst (Del e s key) =
              (if 0 < leading_failures (redis s) then Some FailedToDelete else None) \<and>
            map_of (cache (snd (Del e s key))) key = None \<and>
            disk (snd (Del e s key)) = os_Remove e (disk s) (filepath (getPath e key)))"
proof -
  let ?res = "setToRedis_loop (redis s) key (strings_Trim enc [dquote])
                (seconds_Duration (TTL c)) (nat (MaxRetry (config s)))"
  have ok: "fst ?res = (leading_failures (redis s) < nat (MaxRetry (config s)))"
    using setToRedis_loop_attempts by blast
  have succ: "leading_failures (redis s) < nat (MaxRetry (config s)) \<Longrightarrow>
      fst (setToRedis e s key c) = None \<and>
      isHealth (snd (setToRedis e s key c)) = isHealth s \<and>
      map_of (cache (snd (setToRedis e s key c))) key = Some c \<and>
      rstore (redis (snd (setToRedis e s key c))) key =
        Some (strings_Trim enc [dquote], seconds_Duration (TTL c))"
    using setToRedis_loop_store [of "redis s" key "strings_Trim enc [dquote]"
        "seconds_Duration (TTL c)" "nat (MaxRetry (config s))"]
    by (simp add: setToRedis_unfold [OF assms] Let_def ok update_conv')
  have fail: "nat (MaxRetry (config s)) \<le> leading_failures (redis s) \<Longrightarrow>
      \<not> isHealth (snd (setToRedis e s key c)) \<and>
      checker (snd (setToRedis e s key c)) \<and>
      map_of (cache (snd (setToRedis e s key c))) key = Some c \<and>
      (\<exists>r'. setToRedis e s key c =
              setToMemory e (changeToFallbackMode (s\<lparr>redis := r'\<rparr>)) key c)"
    by (auto simp: setToRedis_unfold [OF assms] Let_def ok setToMemory_fields
        setToMemory_cache changeToFallbackMode_fields)
  have del: "isHealth s \<Longrightarrow>
      rlog (redis (snd (Del e s key))) = rlog (redis s) @ [DEL key] \<and>
      isHealth (snd (Del e s key)) \<and>
      checker (snd (Del e s key)) = checker s \<and>
      spawned (snd (Del e s key)) = spawned s \<and>
      queue (snd (Del e s key)) = queue s \<and>
      fst (Del e s key) =
        (if 0 < leading_failures (redis s) then Some FailedToDelete else None) \<and>
      map_of (cache (snd (Del e s key))) key = None \<and>
      disk (snd (Del e s key)) = os_Remove e (disk s) (filepath (getPath e key))"
    using redis_Del_log [of "redis s" key] redis_Del_ok [of "redis s" key]
    by (auto simp: Del_def Let_def removeJSONFile_def delete_conv'
        split: prod.splits bool.splits)
  show ?thesis
    using setToRedis_log [OF assms] syncToRedis_log [OF assms] succ fail del by blast
qed

text \<open>With two failing round trips the third attempt stores the record; with three the
  client falls back; one failing round trip is all \<^verbatim>\<open>Del\<close> tries.\<close>

theorem remote_retry_policy_witness:
  "json_Marshal example_env (Data permanent_record) = Some [dquote, CHR ''v'', dquote] \<and>
   leading_failures (redis two_failures_client) < nat (MaxRetry (config two_failures_client)) \<and>
   fst (setToRedis example_env two_failures_client ''k'' permanent_record) = None \<and>
   isHealth (snd (setToRedis example_env two_failures_client ''k'' permanent_record)) \<and>
   rlog (redis (snd (setToRedis example_env two_failures_client ''k'' permanent_record))) =
     [SET ''k'' ''v'' 0, SET ''k'' ''v'' 0, SET ''k'' ''v'' 0] \<and>
   nat (MaxRetry (config three_failures_client)) \<le> leading_failures (redis three_failures_client) \<and>
   \<not> isHealth (snd (setToRedis example_env three_failures_client ''k'' permanent_record)) \<and>
   map_of (cache (snd (setToRedis example_env three_failures_client ''k'' permanent_record))) ''k'' =
     Some permanent_record \<and>
   rlog (redis (snd (setToRedis example_env three_failures_client ''k'' permanent_record))) =
     [SET ''k'' ''v'' 0, SET ''k'' ''v'' 0, SET ''k'' ''v'' 0] \<and>
   isHealth flaky_client \<and>
   rlog (redis (snd (Del example_env flaky_client ''k''))) = [DEL ''k''] \<and>
   fst (Del example_env flaky_client ''k'') = Some FailedToDelete \<and>
   isHealth (snd (Del example_env flaky_client ''k'')) \<and>
   map_of (cache (snd (Del example_env flaky_client ''k''))) ''k'' = None \<and>
   disk (snd (Del example_env flaky_client ''k'')) = disk flaky_client"
proof -
  have two: "leading_failures (redis two_failures_client) = 2"
    "nat (MaxRetry (config two_failures_client)) = 3" "rlog (redis two_failures_client) = []"
    "isHealth two_failures_client"
    by (simp_all add: leading_failures_def two_failures_client_def healthy_client_def)
  have three: "leading_failures (redis three_failures_client) = 3"
    "nat (MaxRetry (config three_failures_client)) = 3" "rlog (redis three_failures_client) = []"
    by (simp_all add: leading_failures_def three_failures_client_def healthy_client_def)
  have fl: "isHealth flaky_client" "rlog (redis flaky_client) = []"
    "leading_failures (redis flaky_client) = 1"
    "os_Remove example_env (disk flaky_client) (filepath (getPath example_env ''k'')) =
       disk flaky_client"
    by (simp_all add: flaky_client_def healthy_client_def leading_failures_def os_Remove_def
        example_env_def)
  have d: "seconds_Duration (TTL permanent_record) = 0"
    by (simp add: seconds_Duration_def permanent_record_def int64_def)
  have r3: "replicate 3 (SET ''k'' ''v'' 0) = [SET ''k'' ''v'' 0, SET ''k'' ''v'' 0, SET ''k'' ''v'' 0]"
    by (simp add: eval_nat_numeral)
  from remote_retry_policy [OF example_enc_v, of two_failures_client "''k''"]
    remote_retry_policy [OF example_enc_v, of three_failures_client "''k''"]
    remote_retry_policy [OF example_enc_v, of flaky_client "''k''"]
  show ?thesis
    by (simp add: example_enc_v Trim_enc_v two three fl d r3)
qed

text \<open>The claim as stated fails for \<^verbatim>\<open>Del\<close>: with \<open>MaxRetry = 3\<close> and a remote that
  fails one round trip only, \<^verbatim>\<open>Del("k")\<close> sends one DEL, returns the failure and leaves the key
  on the remote, in healthy mode.\<close>

theorem Del_gives_up_after_one_attempt:
  "isHealth flaky_client \<and> MaxRetry (config flaky_client) = 3 \<and>
   down (redis flaky_client) = [True] \<and>
   fst (Del example_env flaky_client ''k'') = Some FailedToDelete \<and>
   rlog (redis (snd (Del example_env flaky_client ''k''))) = [DEL ''k''] \<and>
   down (redis (snd (Del example_env flaky_client ''k''))) = [] \<and>
   rstore (redis (snd (Del example_env flaky_client ''k''))) ''k'' = Some (''v'', 0) \<and>
   isHealth (snd (Del example_env flaky_client ''k''))"
  by (simp add: flaky_client_def healthy_client_def Del_def Let_def removeJSONFile_def
      redis_Del_def round_trip_def)

section \<open>Writing in fallback mode\<close>

text \<open>
  C6. In fallback mode \<^verbatim>\<open>Set\<close> of a non-nil value always returns, with the record in the
  memory map. The send on the write-behind channel is attempted only when the channel has
  room: then the request is appended, the disk is untouched and the result is no error.
  When the channel is full the queue is left alone, the record is written to disk at once
  by \<^verbatim>\<open>writeToFile\<close>, and the result of that write is what \<^verbatim>\<open>Set\<close> returns.
\<close>

theorem Set_fallback_never_blocks:
  assumes "\<not> isHealth s" and "reflect_TypeOf val = Some ty"
  shows "\<exists>res s'. Set e s now key val ttl = Done (res, s') \<and>
           map_of (cache s') key =
             Some \<lparr>Key = key, Data = val, Type = ty, Timestamp = now, TTL = ttl_seconds e ttl\<rparr> \<and>
           (if int (length (queue s)) < MaxQueue (config s)
            then res = None \<and> disk s' = disk s \<and>
                 queue s' = queue s @ [(key, \<lparr>Key = key, Data = val, Type = ty,
                                              Timestamp = now, TTL = ttl_seconds e ttl\<rparr>)]
            else (res, disk s') =
                   writeToFile e (disk s) key \<lparr>Key = key, Data = val, Type = ty,
                                               Timestamp = now, TTL = ttl_seconds e ttl\<rparr> \<and>
                 queue s' = queue s)"
  using assms
  by (auto simp: Set_def Let_def setToMemory_def update_conv' split: prod.splits)

text \<open>With the channel full, \<^verbatim>\<open>Set("k", "v", 0)\<close> at time 100 returns no error, leaves the
  queue as it was and has written the record's file.\<close>

theorem Set_fallback_never_blocks_witness:
  "\<not> isHealth full_queue_client \<and> reflect_TypeOf (GoString ''v'') = Some ''string'' \<and>
   (\<exists>s'. Set example_env full_queue_client 100 ''k'' (GoString ''v'') 0 = Done (None, s') \<and>
      map_of (cache s') ''k'' = Some permanent_record \<and>
      os_ReadFile (disk s') k_file = Some permanent_json \<and>
      queue s' = queue full_queue_client)"
proof -
  have h: "\<not> isHealth full_queue_client"
    by (simp add: full_queue_client_def fallback_client_def)
  have ty: "reflect_TypeOf (GoString ''v'') = Some ''string''" by simp
  have q: "\<not> int (length (queue full_queue_client)) < MaxQueue (config full_queue_client)"
    by (simp add: full_queue_client_def)
  have item: "\<lparr>Key = ''k'', Data = GoString ''v'', Type = ''string'', Timestamp = 100,
      TTL = ttl_seconds example_env 0\<rparr> = permanent_record"
    by (simp add: permanent_record_def ttl_seconds_def)
  have w: "writeToFile example_env (disk full_queue_client) ''k'' permanent_record =
      (None, \<lparr>db_dir = True, files = [(k_file, permanent_json)]\<rparr>)"
    by (simp add: writeToFile_def Let_def getPath_def k_file_def full_queue_client_def
        fallback_client_def healthy_client_def example_env_def example_Marshal_Cache_def)
  from Set_fallback_never_blocks [OF h ty, of example_env 100 "''k''" 0]
  show ?thesis
    using h ty q by (auto simp: item w os_ReadFile_def)
qed

section \<open>Deleting\<close>




section \<open>Recovery while the flag is set\<close>

text \<open>When \<^verbatim>\<open>isRecovering\<close> is already set, \<^verbatim>\<open>changeToNormalMode\<close> skips the pipelining
  only: the files are loaded into memory, the \<^verbatim>\<open>.json\<close> files are removed (but for those
  whose removal fails) and the client becomes healthy, the remote untouched.\<close>

lemma changeToNormalMode_while_recovering:
  assumes "isRecovering s" and "walk_json (disk s) = Some fs"
  shows "changeToNormalMode e s now =
           (None, s\<lparr>cache := fold (ingest e (disk s)) fs (cache s),
                    disk := (disk s)\<lparr>files :=
                      filter (\<lambda>(p, data). \<not> is_json p \<or> Remove_fails e p) (files (disk s))\<rparr>,
                    isHealth := True\<rparr>)"
  using assms
  by (simp add: changeToNormalMode_def syncMemoryToRedis_def cleanupLocalFile_def Let_def)

text \<open>
  C8, at a failing input. With the flag set, nothing in memory and the file of
  \<^verbatim>\<open>Set("k", "v", 5s)\<close> from time 100 on disk, \<^verbatim>\<open>changeToNormalMode\<close> at time 101 loads the
  record into memory and purges the file, sends nothing to the remote and sets the healthy
  flag.
\<close>

theorem recovery_with_flag_set_still_purges:
  "isRecovering recovering_client \<and>
   fst (changeToNormalMode example_env recovering_client 101) = None \<and>
   map_of (cache (snd (changeToNormalMode example_env recovering_client 101))) ''k'' =
     Some short_record \<and>
   files (disk (snd (changeToNormalMode example_env recovering_client 101))) = [] \<and>
   rlog (redis (snd (changeToNormalMode example_env recovering_client 101))) = [] \<and>
   isHealth (snd (changeToNormalMode example_env recovering_client 101))"
  by (simp add: client_defs changeToNormalMode_def walk_json_def is_json_k_file Let_def
      ingest_def os_ReadFile_def example_env_def example_Unmarshal_def short_record_def
      short_json_def permanent_json_def
      syncMemoryToRedis_def cleanupLocalFile_def)

text \<open>With the flag clear the same call pipelines the record, with the four seconds it has
  left.\<close>

theorem recovery_with_flag_clear_pipelines:
  "rlog (redis (snd (changeToNormalMode example_env
      (recovering_client\<lparr>isRecovering := False\<rparr>) 101))) = [EXEC [(''k'', ''v'', 4000000000)]]"
  by (simp add: client_defs changeToNormalMode_def walk_json_def is_json_k_file Let_def
      ingest_def os_ReadFile_def example_env_def example_Unmarshal_def short_record_def
      short_json_def permanent_json_def strings_Trim_def dquote_def json_escape_def
      backslash_def
      syncMemoryToRedis_def sync_item_def isExpired_def seconds_Duration_def int64_def
      redis_Exec_def round_trip_def cleanupLocalFile_def)

section \<open>Reading a key the remote does not have\<close>

text \<open>
  C9, as the code has it. In healthy mode, for a key that is not in memory and for which the
  retried remote GET yields no decodable record (as it does when the remote simply has no such
  key), \<^verbatim>\<open>Get\<close> clears the healthy flag and holds a health-check ticker afterwards, starting
  one unless one was held. It then answers from the disk: \<^verbatim>\<open>NotFound\<close> when the key has no
  file or the file's record is expired, a parse failure when the file does not decode, and
  the data of the file's record otherwise.
\<close>

theorem Get_miss_flips_to_fallback:
  assumes "isHealth s" and "map_of (cache s) key = None"
    and "rstore (redis s) key = None \<or>
         fst (getFromRedis_loop e (redis s) key (nat (MaxRetry (config s)))) = None"
  shows "\<not> isHealth (snd (Get e s now key)) \<and> checker (snd (Get e s now key)) \<and>
         spawned (snd (Get e s now key)) =
           (if checker s then spawned s else spawned s @ [go_healthCheck]) \<and>
         fst (Get e s now key) =
           (case os_ReadFile (disk s) (filepath (getPath e key)) of
              None \<Rightarrow> Inl NotFound
            | Some data \<Rightarrow>
                (case json_Unmarshal e data of
                   None \<Rightarrow> Inl FailedToParse
                 | Some item \<Rightarrow> if isExpired now item then Inl NotFound else Inr (Data item)))"
proof -
  from assms(3) have none: "fst (getFromRedis_loop e (redis s) key (nat (MaxRetry (config s)))) = None"
    using getFromRedis_loop_missing by blast
  obtain r' where loop:
    "getFromRedis_loop e (redis s) key (nat (MaxRetry (config s))) = (None, r')"
    using none by (cases "getFromRedis_loop e (redis s) key (nat (MaxRetry (config s)))") simp
  let ?s1 = "changeToFallbackMode (s\<lparr>redis := r'\<rparr>)"
  have get: "Get e s now key = loadFromFile e ?s1 now key"
    using assms(1,2) loop
    by (simp add: Get_def getFromRedis_def getFromMemory_def changeToFallbackMode_fields)
  have s1: "\<not> isHealth ?s1" "checker ?s1" "disk ?s1 = disk s"
    "spawned ?s1 = (if checker s then spawned s else spawned s @ [go_healthCheck])"
    by (simp_all add: changeToFallbackMode_def Let_def)
  show ?thesis
    unfolding get using s1
    by (simp add: loadFromFile_def removeJSONFile_def split: option.splits)
qed

text \<open>A healthy client with a reachable, empty remote: \<^verbatim>\<open>Get("k")\<close> returns \<^verbatim>\<open>NotFound\<close>
  and leaves the client in fallback mode with a ticker started.\<close>

theorem Get_miss_flips_to_fallback_witness:
  "isHealth healthy_client \<and> map_of (cache healthy_client) ''k'' = None \<and>
   rstore (redis healthy_client) ''k'' = None \<and> down (redis healthy_client) = [] \<and>
   \<not> isHealth (snd (Get example_env healthy_client 200 ''k'')) \<and>
   checker (snd (Get example_env healthy_client 200 ''k'')) \<and>
   spawned (snd (Get example_env healthy_client 200 ''k'')) = [go_healthCheck] \<and>
   fst (Get example_env healthy_client 200 ''k'') = Inl NotFound"
proof -
  have a: "isHealth healthy_client" "map_of (cache healthy_client) ''k'' = None"
    "rstore (redis healthy_client) ''k'' = None" "down (redis healthy_client) = []"
    by (simp_all add: healthy_client_def)
  have f: "os_ReadFile (disk healthy_client) (filepath (getPath example_env ''k'')) = None"
    by (simp add: healthy_client_def os_ReadFile_def)
  have c: "\<not> checker healthy_client" "spawned healthy_client = []"
    by (simp_all add: healthy_client_def)
  from Get_miss_flips_to_fallback [OF a(1) a(2) disjI1 [OF a(3)], of example_env 200]
  show ?thesis using a by (simp add: f c)
qed

text \<open>The claim as stated fails when the key has a file: the remote, reachable, answers the
  three GETs with its not-found reply, the client falls back, and \<^verbatim>\<open>Get("k")\<close> returns the
  value of the file instead of \<^verbatim>\<open>NotFound\<close>.\<close>

theorem Get_miss_with_file_returns_value:
  "isHealth orphan_file_client \<and> map_of (cache orphan_file_client) ''k'' = None \<and>
   rstore (redis orphan_file_client) ''k'' = None \<and> down (redis orphan_file_client) = [] \<and>
   fst (Get example_env orphan_file_client 200 ''k'') = Inr (GoString ''v'') \<and>
   \<not> isHealth (snd (Get example_env orphan_file_client 200 ''k'')) \<and>
   rlog (redis (snd (Get example_env orphan_file_client 200 ''k''))) =
     [GET ''k'', GET ''k'', GET ''k'']"
  by (simp add: orphan_file_client_def healthy_client_def Get_def getFromRedis_def
      eval_nat_numeral redis_Get_def round_trip_def changeToFallbackMode_def Let_def
      getFromMemory_def loadFromFile_def os_ReadFile_def k_file_eq
      isExpired_def)
     (simp add: example_env_def example_Unmarshal_def permanent_record_def isExpired_def)

section \<open>Setting a nil value\<close>

text \<open>
  C10. For every key and every \<open>ttl\<close>, \<^verbatim>\<open>Set(k, nil, ttl)\<close> panics: the type tag is
  \<^verbatim>\<open>reflect.TypeOf(value).String()\<close>, called on the nil type. The panic leaves the client as
  it was, no tier having been touched. For every non-nil value \<^verbatim>\<open>Set\<close> returns.
\<close>

theorem Set_nil_panics:
  "Set e s now key GoNil ttl = Panic s \<and>
   (val \<noteq> GoNil \<longrightarrow> (\<exists>res. Set e s now key val ttl = Done res))"
  by (cases val) (simp_all add: Set_def Let_def)

theorem Set_nil_panics_witness:
  "Set example_env healthy_client 100 ''k'' GoNil 60000000000 = Panic healthy_client \<and>
   GoString ''v'' \<noteq> GoNil \<and>
   (\<exists>res. Set example_env healthy_client 100 ''k'' (GoString ''v'') 60000000000 = Done res)"
  using Set_nil_panics [of example_env healthy_client 100 "''k''" 60000000000 "GoString ''v''"]
  by simp

end
